theory Spec2Isabelle
  imports Complex_Main
begin

section \<open>Data model\<close>

text \<open>
  The repository stores its data in MongoDB documents and in Redis keys. A JavaScript
  \<open>Number\<close> is modelled as an exact rational (\<open>rat\<close>): counters are exact in both for the
  whole numbers the validators admit, and the rounding of IEEE doubles in the fee
  products is outside the model. A \<open>Date\<close> is its \<open>getTime()\<close> value in milliseconds; an
  Invalid Date (\<open>new Date(undefined)\<close>) is \<open>None\<close>. Document ids are natural numbers.
\<close>

type_synonym number = rat

text \<open>\<open>eventSchema.tiers[]\<close> of the event model.\<close>

record tier =
  name :: string
  price :: number
  quantityAvailable :: number
  quantitySold :: number

datatype event_status = draft | published | ev_cancelled | ev_completed

text \<open>The fields of \<open>eventSchema\<close> that the checkout, payment and payout code reads or writes.\<close>

record event =
  ev_id :: nat
  hostId :: nat
  ev_status :: event_status
  tiers :: "tier list"
  eventDateTime :: int
  ticketsSold :: number
  payoutProcessed :: bool

datatype payment_status = pending | processing | completed | failed | refunded

text \<open>
  Every \<open>throw\<close> of the modelled functions is a value of this type. The constructor says
  which \<open>throw\<close> it is; the numbers and names interpolated into the message are its
  arguments.
\<close>

datatype error =
    EventNotFound                       \<comment> \<open>\<open>AppError('Event not found', 404)\<close>\<close>
  | EventNotPublished                   \<comment> \<open>\<open>AppError('Event is not published for ticket sales', 400)\<close>\<close>
  | EventBeingProcessed                 \<comment> \<open>\<open>AppError('Event is being processed by another request', 409)\<close>\<close>
  | TierNotFound string                 \<comment> \<open>\<open>Tier "..." not found\<close>\<close>
  | OnlyAvailable number string         \<comment> \<open>\<open>Only n tickets available in tier "..."\<close>\<close>
  | OrderNotFound                       \<comment> \<open>\<open>AppError('Order not found', 404)\<close>\<close>
  | OrderAlready payment_status         \<comment> \<open>\<open>AppError(`Order is already ${paymentStatus}`, 400)\<close>\<close>
  | ReservationExpired                  \<comment> \<open>\<open>AppError('Ticket reservation has expired', 400)\<close>\<close>
  | PaymentInitiationFailed string      \<comment> \<open>\<open>AppError(`Payment initiation failed: ...`, 400)\<close>\<close>
  | FailedToInitiate                    \<comment> \<open>\<open>Error('Failed to initiate M-Pesa payment')\<close>\<close>
  | FailedToValidateCallback            \<comment> \<open>\<open>Error('Failed to validate payment callback')\<close>\<close>
  | TicketNotFound                      \<comment> \<open>\<open>AppError('Ticket not found', 404)\<close>\<close>
  | PayoutEventNotFound                 \<comment> \<open>\<open>Error(`Event ${eventId} not found`)\<close>\<close>
  | PayoutEventNotCompleted             \<comment> \<open>\<open>Error(`Event ${eventId} is not completed`)\<close>\<close>
  | PayoutAlreadyCompleted              \<comment> \<open>\<open>Error(`Payout already completed for event ${eventId}`)\<close>\<close>
  | PayoutHostNotFound                  \<comment> \<open>\<open>Error(`Host not found for event ${eventId}`)\<close>\<close>
  | CheckoutNotInCache                  \<comment> \<open>\<open>Error('Checkout request not found in cache')\<close>\<close>
  | InsufficientPayment number "number option"  \<comment> \<open>\<open>Error(`Insufficient payment. Expected: ..., Received: ...`)\<close>\<close>
  | CallbackOrderNotFound               \<comment> \<open>\<open>Error('Order not found')\<close>\<close>
  | ActivationTicketNotFound            \<comment> \<open>\<open>Error(`Ticket ${ticketId} not found`)\<close>\<close>
  | ActivationEventNotFound             \<comment> \<open>\<open>Error(`Event not found for ticket ${ticketId}`)\<close>\<close>
  | NullEvent                           \<comment> \<open>\<open>TypeError\<close>: a property of \<open>null\<close> is read\<close>
  | NullTicket                          \<comment> \<open>\<open>TypeError\<close>: a property of \<open>null\<close> is read\<close>

section \<open>Inventory: \<open>reserveTickets\<close> and \<open>releaseTickets\<close>\<close>

text \<open>\<open>this.tiers.find(t => t.name === tierName)\<close>: the first tier of that name.\<close>

definition find_tier :: "tier list \<Rightarrow> string \<Rightarrow> tier option" where
  "find_tier ts n = List.find (\<lambda>t. name t = n) ts"

text \<open>
  \<open>find\<close> returns a reference into \<open>this.tiers\<close>, and the methods assign through it: the
  first tier of that name is replaced in the array.
\<close>

fun update_tier :: "string \<Rightarrow> (tier \<Rightarrow> tier) \<Rightarrow> tier list \<Rightarrow> tier list" where
  "update_tier n f [] = []"
| "update_tier n f (t # ts) = (if name t = n then f t # ts else t # update_tier n f ts)"

definition reserveTickets :: "event \<Rightarrow> string \<Rightarrow> number \<Rightarrow> error + event" where
  "reserveTickets ev tierName quantity =
     (case find_tier (tiers ev) tierName of
        None \<Rightarrow> Inl (TierNotFound tierName)
      | Some t \<Rightarrow>
          let available = quantityAvailable t - quantitySold t in
          if available < quantity then Inl (OnlyAvailable available tierName)
          else Inr (ev\<lparr>tiers := update_tier tierName
                                   (\<lambda>t. t\<lparr>quantitySold := quantitySold t + quantity\<rparr>) (tiers ev),
                        ticketsSold := ticketsSold ev + quantity\<rparr>))"

definition releaseTickets :: "event \<Rightarrow> string \<Rightarrow> number \<Rightarrow> error + event" where
  "releaseTickets ev tierName quantity =
     (case find_tier (tiers ev) tierName of
        None \<Rightarrow> Inl (TierNotFound tierName)
      | Some t \<Rightarrow>
          Inr (ev\<lparr>tiers := update_tier tierName
                              (\<lambda>t. t\<lparr>quantitySold := max 0 (quantitySold t - quantity)\<rparr>) (tiers ev),
                   ticketsSold := max 0 (ticketsSold ev - quantity)\<rparr>))"

text \<open>
  A sequence of ledger calls on one event document. A call that throws leaves the
  document as it was (both methods throw before their first assignment).
\<close>

datatype ledger_op = Reserve string number | Release string number

fun op_quantity :: "ledger_op \<Rightarrow> number" where
  "op_quantity (Reserve n q) = q"
| "op_quantity (Release n q) = q"

fun apply_ledger_op :: "event \<Rightarrow> ledger_op \<Rightarrow> event" where
  "apply_ledger_op ev (Reserve n q) =
     (case reserveTickets ev n q of Inl e \<Rightarrow> ev | Inr ev' \<Rightarrow> ev')"
| "apply_ledger_op ev (Release n q) =
     (case releaseTickets ev n q of Inl e \<Rightarrow> ev | Inr ev' \<Rightarrow> ev')"

fun run_ledger :: "event \<Rightarrow> ledger_op list \<Rightarrow> event" where
  "run_ledger ev [] = ev"
| "run_ledger ev (x # xs) = run_ledger (apply_ledger_op ev x) xs"

text \<open>The bound of the specification: \<open>0 \<le> sold \<le> capacity\<close>.\<close>

definition tier_ok :: "tier \<Rightarrow> bool" where
  "tier_ok t \<longleftrightarrow> 0 \<le> quantitySold t \<and> quantitySold t \<le> quantityAvailable t"

definition tiers_ok :: "event \<Rightarrow> bool" where
  "tiers_ok ev \<longleftrightarrow> list_all tier_ok (tiers ev)"

text \<open>An event with one tier of capacity 5, two of them sold.\<close>

definition ev_vip :: event where
  "ev_vip = \<lparr>ev_id = 1, hostId = 7, ev_status = published,
             tiers = [\<lparr>name = ''VIP'', price = 500, quantityAvailable = 5, quantitySold = 2\<rparr>],
             eventDateTime = 100000000, ticketsSold = 2, payoutProcessed = False\<rparr>"

section \<open>Orders, tickets, payouts and the store\<close>

text \<open>\<open>orderSchema.tickets[]\<close>: one line item of an order.\<close>

record order_item =
  tierName :: string
  quantity :: number
  unitPrice :: number
  totalPrice :: number

record order =
  order_id :: nat
  orderNumber :: string
  eventId :: nat
  tickets :: "order_item list"
  subtotal :: number
  platformFee :: number
  processingFee :: number
  totalAmount :: number
  hostAmount :: number
  platformAmount :: number
  paymentStatus :: payment_status
  mpesaReference :: "string option"
  checkoutRequestId :: "string option"
  order_notes :: "string option"

datatype ticket_status = not_active | valid | already_used | invalid | cancelled

text \<open>
  A ticket document as \<open>scanTicket\<close> reads it. \<open>populated_eventDateTime\<close> is
  \<open>ticket.event?.eventDateTime\<close>: the start of the event that \<open>populate('event', ...)\<close>
  attached, \<open>None\<close> when no event is attached (the expression is then \<open>undefined\<close>).
\<close>

record ticket =
  tk_id :: nat
  ticketId :: string
  qrCodeId :: string
  tk_eventId :: nat
  tk_status :: ticket_status
  populated_eventDateTime :: "int option"
  activationTime :: "int option"
  scannedAt :: "int option"
  scannedBy :: "nat option"

datatype payout_status = po_pending | po_processing | po_completed | po_failed | po_cancelled

record payout =
  po_id :: nat
  po_hostId :: nat
  po_eventId :: nat
  amount :: number
  po_status :: payout_status
  ticketSales :: nat
  completedAt :: "int option"

text \<open>The body of a checkout request: \<open>req.body.tickets[]\<close>.\<close>

record request_item =
  req_tierName :: string
  req_quantity :: number

text \<open>The JSON values the code stores in Redis.\<close>

record reservation =
  res_eventId :: nat
  res_tickets :: "request_item list"
  expiresAt :: int

record checkout_info =
  co_orderId :: string
  co_amount :: number

text \<open>
  One family of Redis keys: each value is kept with the instant (in milliseconds) at
  which its \<open>EX\<close> time to live ends, and a key read after that instant is absent.
  \<open>JSON.parse (JSON.stringify v)\<close> is \<open>v\<close>. Connection failures of Redis are not modelled.
\<close>

type_synonym ('k, 'v) redis = "'k \<Rightarrow> ('v \<times> int) option"

definition redis_get :: "('k, 'v) redis \<Rightarrow> int \<Rightarrow> 'k \<Rightarrow> 'v option" where
  "redis_get r now k =
     (case r k of None \<Rightarrow> None | Some (v, ends) \<Rightarrow> if ends < now then None else Some v)"

definition redis_set :: "('k, 'v) redis \<Rightarrow> int \<Rightarrow> 'k \<Rightarrow> 'v \<Rightarrow> int \<Rightarrow> ('k, 'v) redis" where
  "redis_set r now k v ex = r(k \<mapsto> (v, now + ex * 1000))"

text \<open>\<open>SET key value NX EX ex\<close>: \<open>None\<close> (the reply \<open>null\<close>) when the key is present.\<close>

definition redis_set_nx ::
  "('k, 'v) redis \<Rightarrow> int \<Rightarrow> 'k \<Rightarrow> 'v \<Rightarrow> int \<Rightarrow> ('k, 'v) redis option" where
  "redis_set_nx r now k v ex =
     (case redis_get r now k of None \<Rightarrow> Some (redis_set r now k v ex) | Some old \<Rightarrow> None)"

definition redis_del :: "('k, 'v) redis \<Rightarrow> 'k \<Rightarrow> ('k, 'v) redis" where
  "redis_del r k = r(k := None)"

text \<open>The payload of a \<open>generate-tickets\<close> job on the ticket queue.\<close>

record ticket_job =
  job_orderId :: nat
  job_eventId :: nat
  job_tickets :: "order_item list"

text \<open>
  The collections of the database, the job queues (the ticket jobs, the activation
  jobs with their delay, the event ids of the payout jobs that are waiting, delayed or
  active), and the four families of Redis keys:
  \<open>event:${eventId}:lock\<close>, \<open>reservation:${order._id}\<close>,
  \<open>mpesa:checkout:${checkoutRequestId}\<close> and \<open>ticket:${qrCodeId}\<close> (the cached value is
  a ticket document or \<open>null\<close>), and the list \<open>scans:log\<close>.
\<close>

record store =
  events :: "nat \<Rightarrow> event option"
  orders :: "order list"
  db_tickets :: "ticket list"
  payouts :: "payout list"
  users :: "nat list"
  ticketQueue :: "ticket_job list"
  activationQueue :: "(nat \<times> int) list"
  payoutQueue :: "nat list"
  locks :: "(nat, unit) redis"
  reservations :: "(nat, reservation) redis"
  checkouts :: "(string, checkout_info) redis"
  ticketCache :: "(string, ticket option) redis"
  scanLog :: "(string \<times> nat) list"

text \<open>\<open>findOneAndUpdate\<close> and \<open>save\<close>: the first document that matches is replaced.\<close>

fun update_first :: "('a \<Rightarrow> bool) \<Rightarrow> ('a \<Rightarrow> 'a) \<Rightarrow> 'a list \<Rightarrow> 'a list" where
  "update_first P f [] = []"
| "update_first P f (x # xs) = (if P x then f x # xs else x # update_first P f xs)"

definition save_event :: "store \<Rightarrow> nat \<Rightarrow> event option \<Rightarrow> store" where
  "save_event s k ev = (case ev of None \<Rightarrow> s | Some e \<Rightarrow> s\<lparr>events := (events s)(k \<mapsto> e)\<rparr>)"

section \<open>Fees: \<open>orderSchema.pre('save')\<close>\<close>


section \<open>Checkout: \<open>createCheckout\<close>\<close>


record checkout_response =
  resp_id :: nat
  resp_orderNumber :: string
  resp_totalAmount :: number
  resp_tickets :: "order_item list"
  reservationExpiresIn :: int



section \<open>Payment initiation: \<open>initiateSTKPush\<close> and \<open>initiatePayment\<close>\<close>

text \<open>What the payment gateway answers to the push request; it is outside the repository.\<close>

datatype stk_response =
    StkAccepted string    \<comment> \<open>\<open>ResponseCode === '0'\<close>, with the \<open>CheckoutRequestID\<close>\<close>
  | StkRejected string    \<comment> \<open>another \<open>ResponseCode\<close>, with the \<open>ResponseDescription\<close>\<close>
  | StkUnreachable        \<comment> \<open>the token request or the HTTP request throws\<close>

datatype stk_result = StkSuccess string | StkFailure string

definition initiateSTKPush ::
  "(string, checkout_info) redis \<Rightarrow> int \<Rightarrow> stk_response \<Rightarrow> number \<Rightarrow> string \<Rightarrow>
   (error + stk_result) \<times> (string, checkout_info) redis" where
  "initiateSTKPush r now gw amt orderId =
     (case gw of
        StkAccepted cid \<Rightarrow>
          (Inr (StkSuccess cid),
           redis_set r now cid \<lparr>co_orderId = orderId, co_amount = amt\<rparr> 3600)
      | StkRejected msg \<Rightarrow> (Inr (StkFailure msg), r)
      | StkUnreachable \<Rightarrow> (Inl FailedToInitiate, r))"

text \<open>
  The two loops of \<open>initiatePayment\<close> over \<open>order.tickets\<close>. \<open>event\<close> is the document
  \<open>Event.findById\<close> returned (\<open>None\<close> for \<open>null\<close>, on which a method call is a
  \<open>TypeError\<close>); each successful call has saved the document it returns.
\<close>

fun reserve_loop :: "event option \<Rightarrow> order_item list \<Rightarrow> (error + unit) \<times> event option" where
  "reserve_loop ev [] = (Inr (), ev)"
| "reserve_loop None (t # ts) = (Inl NullEvent, None)"
| "reserve_loop (Some ev) (t # ts) =
     (case reserveTickets ev (tierName t) (quantity t) of
        Inl e \<Rightarrow> (Inl e, Some ev)
      | Inr ev' \<Rightarrow> reserve_loop (Some ev') ts)"

fun release_loop :: "event option \<Rightarrow> order_item list \<Rightarrow> (error + unit) \<times> event option" where
  "release_loop ev [] = (Inr (), ev)"
| "release_loop None (t # ts) = (Inl NullEvent, None)"
| "release_loop (Some ev) (t # ts) =
     (case releaseTickets ev (tierName t) (quantity t) of
        Inl e \<Rightarrow> (Inl e, Some ev)
      | Inr ev' \<Rightarrow> release_loop (Some ev') ts)"

record payment_response =
  pay_checkoutRequestId :: string
  pay_orderId :: string

definition initiatePayment ::
  "store \<Rightarrow> int \<Rightarrow> nat \<Rightarrow> stk_response \<Rightarrow> (error + payment_response) \<times> store" where
  "initiatePayment s now orderId gw =
     (case List.find (\<lambda>ord. order_id ord = orderId) (orders s) of
        None \<Rightarrow> (Inl OrderNotFound, s)
      | Some ord \<Rightarrow>
          if paymentStatus ord \<noteq> pending then (Inl (OrderAlready (paymentStatus ord)), s)
          else
            (case redis_get (reservations s) now (order_id ord) of
               None \<Rightarrow> (Inl ReservationExpired, s)
             | Some reservation \<Rightarrow>
                 (case reserve_loop (events s (eventId ord)) (tickets ord) of
                    (Inl e, ev1) \<Rightarrow> (Inl e, save_event s (eventId ord) ev1)
                  | (Inr u, ev1) \<Rightarrow>
                      let s1 = save_event s (eventId ord) ev1;
                          s2 = s1\<lparr>reservations := redis_del (reservations s1) (order_id ord)\<rparr>
                      in (case initiateSTKPush (checkouts s2) now gw (totalAmount ord) (orderNumber ord) of
                            (Inl e, r) \<Rightarrow> (Inl e, s2\<lparr>checkouts := r\<rparr>)
                          | (Inr (StkFailure msg), r) \<Rightarrow>
                              (case release_loop ev1 (tickets ord) of
                                 (Inl e, ev2) \<Rightarrow>
                                   (Inl e, save_event (s2\<lparr>checkouts := r\<rparr>) (eventId ord) ev2)
                               | (Inr u, ev2) \<Rightarrow>
                                   (Inl (PaymentInitiationFailed msg),
                                    save_event (s2\<lparr>checkouts := r\<rparr>) (eventId ord) ev2))
                          | (Inr (StkSuccess cid), r) \<Rightarrow>
                              (Inr \<lparr>pay_checkoutRequestId = cid, pay_orderId = orderNumber ord\<rparr>,
                               s2\<lparr>checkouts := r,
                                  orders := update_first (\<lambda>x. order_id x = order_id ord)
                                              (\<lambda>x. x\<lparr>checkoutRequestId := Some cid\<rparr>) (orders s2)\<rparr>)))))"

section \<open>Payment notifications: \<open>validateCallback\<close> and the \<open>/callback\<close> route\<close>

text \<open>
  \<open>payload.Body.stkCallback\<close>, with the two items of \<open>CallbackMetadata\<close> the code uses
  (\<open>None\<close> when the item is missing: the variable is then \<open>undefined\<close>).
\<close>

record callback =
  ResultCode :: int
  ResultDesc :: string
  CheckoutRequestID :: string
  meta_Amount :: "number option"
  meta_MpesaReceiptNumber :: "string option"

datatype callback_result =
    CallbackFailure string int string
      \<comment> \<open>\<open>{success: false, checkoutRequestId, resultCode, resultDesc}\<close>\<close>
  | CallbackSuccess string "string option" "number option" string
      \<comment> \<open>\<open>{success: true, orderId, mpesaReceiptNumber, amountPaid, checkoutRequestId}\<close>\<close>

text \<open>
  \<open>parseFloat(amountPaid) < parseFloat(expectedAmount)\<close>: a missing amount parses to
  \<open>NaN\<close>, and every comparison with \<open>NaN\<close> is false.
\<close>

definition short_paid :: "number option \<Rightarrow> number \<Rightarrow> bool" where
  "short_paid amountPaid expectedAmount =
     (case amountPaid of None \<Rightarrow> False | Some paid \<Rightarrow> paid < expectedAmount)"

text \<open>The body of the \<open>try\<close> block of \<open>validateCallback\<close>, with the error it throws.\<close>

definition validateCallback_try ::
  "store \<Rightarrow> int \<Rightarrow> callback \<Rightarrow> (error + callback_result) \<times> store" where
  "validateCallback_try s now cb =
     (if ResultCode cb \<noteq> 0 then
        (let metadata = (if ResultDesc cb = [] then ''Payment failed'' else ResultDesc cb);
             failure = CallbackFailure (CheckoutRequestID cb) (ResultCode cb) (ResultDesc cb)
         in case redis_get (checkouts s) now (CheckoutRequestID cb) of
              None \<Rightarrow> (Inr failure, s)
            | Some cachedData \<Rightarrow>
                let s1 = s\<lparr>orders := update_first (\<lambda>x. orderNumber x = co_orderId cachedData)
                             (\<lambda>x. x\<lparr>paymentStatus := failed,
                                     order_notes := Some (''Payment failed: '' @ metadata)\<rparr>) (orders s)\<rparr>
                in (case List.find (\<lambda>x. orderNumber x = co_orderId cachedData) (orders s1) of
                      None \<Rightarrow>
                        (Inr failure, s1\<lparr>checkouts := redis_del (checkouts s1) (CheckoutRequestID cb)\<rparr>)
                    | Some ord \<Rightarrow>
                        (case events s1 (eventId ord) of
                           None \<Rightarrow>
                             (Inr failure,
                              s1\<lparr>checkouts := redis_del (checkouts s1) (CheckoutRequestID cb)\<rparr>)
                         | Some ev \<Rightarrow>
                             (case release_loop (Some ev) (tickets ord) of
                                (Inl e, ev') \<Rightarrow> (Inl e, save_event s1 (eventId ord) ev')
                              | (Inr u, ev') \<Rightarrow>
                                  (Inr failure,
                                   (save_event s1 (eventId ord) ev')
                                     \<lparr>checkouts := redis_del (checkouts s1) (CheckoutRequestID cb)\<rparr>)))))
      else
        (case redis_get (checkouts s) now (CheckoutRequestID cb) of
           None \<Rightarrow> (Inl CheckoutNotInCache, s)
         | Some cachedData \<Rightarrow>
             if short_paid (meta_Amount cb) (co_amount cachedData)
             then (Inl (InsufficientPayment (co_amount cachedData) (meta_Amount cb)), s)
             else
               let s1 = s\<lparr>orders := update_first (\<lambda>x. orderNumber x = co_orderId cachedData)
                            (\<lambda>x. x\<lparr>paymentStatus := completed,
                                    mpesaReference := meta_MpesaReceiptNumber cb,
                                    checkoutRequestId := Some (CheckoutRequestID cb),
                                    order_notes := Some (''Payment received via M-Pesa. Receipt: '' @
                                      (case meta_MpesaReceiptNumber cb of
                                         None \<Rightarrow> ''undefined'' | Some receipt \<Rightarrow> receipt))\<rparr>)
                            (orders s)\<rparr>
               in (case List.find (\<lambda>x. orderNumber x = co_orderId cachedData) (orders s1) of
                     None \<Rightarrow> (Inl CallbackOrderNotFound, s1)
                   | Some ord \<Rightarrow>
                       (case events s1 (eventId ord) of
                          None \<Rightarrow> (Inl NullEvent, s1)
                        | Some ev \<Rightarrow>
                            (Inr (CallbackSuccess (orderNumber ord) (meta_MpesaReceiptNumber cb)
                                    (meta_Amount cb) (CheckoutRequestID cb)),
                             s1\<lparr>ticketQueue := ticketQueue s1 @
                                   [\<lparr>job_orderId = order_id ord, job_eventId = ev_id ev,
                                     job_tickets = tickets ord\<rparr>],
                                 checkouts := redis_del (checkouts s1) (CheckoutRequestID cb)\<rparr>)))))"

text \<open>The \<open>catch\<close> of \<open>validateCallback\<close> logs the error and throws one of its own.\<close>

definition validateCallback ::
  "store \<Rightarrow> int \<Rightarrow> callback \<Rightarrow> (error + callback_result) \<times> store" where
  "validateCallback s now cb =
     (case validateCallback_try s now cb of
        (Inl e, s') \<Rightarrow> (Inl FailedToValidateCallback, s')
      | (Inr res, s') \<Rightarrow> (Inr res, s'))"

text \<open>The answer of \<open>router.post('/callback')\<close>: HTTP status and JSON body.\<close>

record ack =
  http_status :: nat
  ack_ResultCode :: int
  ack_ResultDesc :: string

definition callback_route :: "store \<Rightarrow> int \<Rightarrow> callback \<Rightarrow> ack \<times> store" where
  "callback_route s now cb =
     (case validateCallback s now cb of
        (Inr (CallbackSuccess orderId receipt paid cid), s') \<Rightarrow>
          (\<lparr>http_status = 200, ack_ResultCode = 0, ack_ResultDesc = ''Success''\<rparr>, s')
      | (Inr (CallbackFailure cid resultCode resultDesc), s') \<Rightarrow>
          (\<lparr>http_status = 200, ack_ResultCode = resultCode, ack_ResultDesc = resultDesc\<rparr>, s')
      | (Inl e, s') \<Rightarrow>
          (\<lparr>http_status = 200, ack_ResultCode = 1,
            ack_ResultDesc = ''Error processing callback''\<rparr>, s'))"

section \<open>Scanning: \<open>scanTicket\<close>\<close>

datatype scan_response =
    TicketAlreadyUsed string "int option"
      \<comment> \<open>400 \<open>'Ticket already used'\<close>, with \<open>ticketId\<close> and \<open>scannedAt\<close>\<close>
  | TicketIs ticket_status string
      \<comment> \<open>400 \<open>`Ticket is ${ticket.status}`\<close>, with \<open>ticketId\<close>\<close>
  | NotYetActive string int int
      \<comment> \<open>400 \<open>'Ticket not yet active. ...'\<close>, with \<open>ticketId\<close>, \<open>activationTime\<close>, \<open>currentTime\<close>\<close>
  | ScannedSuccessfully ticket
      \<comment> \<open>200 \<open>'Ticket scanned successfully'\<close>, with \<open>updatedTicket\<close>\<close>

text \<open>Lines 12 to 32: the cached document, or the one in the database, which is cached.\<close>

definition scan_lookup :: "store \<Rightarrow> int \<Rightarrow> string \<Rightarrow> (error + ticket) \<times> store" where
  "scan_lookup s now q =
     (case redis_get (ticketCache s) now q of
        Some cachedTicket \<Rightarrow>
          (case cachedTicket of None \<Rightarrow> (Inl NullTicket, s) | Some t \<Rightarrow> (Inr t, s))
      | None \<Rightarrow>
          (case List.find (\<lambda>t. qrCodeId t = q) (db_tickets s) of
             None \<Rightarrow> (Inl TicketNotFound, s)
           | Some t \<Rightarrow> (Inr t, s\<lparr>ticketCache := redis_set (ticketCache s) now q (Some t) 300\<rparr>)))"

text \<open>
  \<open>fourHoursBefore\<close> of line 61, from \<open>ticket.event?.eventDateTime\<close>; without an event
  it is an Invalid Date (\<open>None\<close>), and \<open>now < fourHoursBefore\<close> is then false.
\<close>

definition fourHoursBefore :: "ticket \<Rightarrow> int option" where
  "fourHoursBefore t =
     map_option (\<lambda>eventTime. eventTime - 4 * 60 * 60 * 1000) (populated_eventDateTime t)"

text \<open>
  Lines 34 to 77: the checks on the status. \<open>Inl\<close> is the response sent at once,
  \<open>Inr\<close> the ticket that goes on to be marked as used.
\<close>

definition scan_check :: "int \<Rightarrow> ticket \<Rightarrow> scan_response + ticket" where
  "scan_check now t =
     (if tk_status t = already_used then Inl (TicketAlreadyUsed (ticketId t) (scannedAt t))
      else if tk_status t = invalid \<or> tk_status t = cancelled
        then Inl (TicketIs (tk_status t) (ticketId t))
      else if tk_status t = not_active then
        (case fourHoursBefore t of
           Some activation \<Rightarrow>
             if now < activation then Inl (NotYetActive (ticketId t) activation now)
             else Inr (t\<lparr>tk_status := valid\<rparr>)
         | None \<Rightarrow> Inr (t\<lparr>tk_status := valid\<rparr>))
      else Inr t)"

text \<open>
  Lines 79 to 120: \<open>Ticket.findByIdAndUpdate\<close> with no condition on the status, the
  cache, the log and the response. The updated document comes back with
  \<open>populate('event', 'name location.venueName')\<close>, which leaves the start of the event out.
\<close>

definition scan_mark_used ::
  "store \<Rightarrow> int \<Rightarrow> nat \<Rightarrow> string \<Rightarrow> ticket \<Rightarrow> (error + scan_response) \<times> store" where
  "scan_mark_used s now scannerId q t =
     (let ts = update_first (\<lambda>x. tk_id x = tk_id t)
                 (\<lambda>x. x\<lparr>tk_status := already_used, scannedAt := Some now,
                         scannedBy := Some scannerId\<rparr>) (db_tickets s);
          updatedTicket = map_option (\<lambda>x. x\<lparr>populated_eventDateTime := None\<rparr>)
                            (List.find (\<lambda>x. tk_id x = tk_id t) ts);
          s1 = s\<lparr>db_tickets := ts,
                 ticketCache := redis_set (ticketCache s) now q updatedTicket 300,
                 scanLog := (ticketId t, scannerId) # scanLog s\<rparr>
      in case updatedTicket of
           None \<Rightarrow> (Inl NullTicket, s1)
         | Some u \<Rightarrow> (Inr (ScannedSuccessfully u), s1))"

text \<open>
  The handler up to its \<open>await Ticket.findByIdAndUpdate\<close>: a response, or the ticket it
  is about to mark. Another request can run between this part and the update.
\<close>

definition scan_begin ::
  "store \<Rightarrow> int \<Rightarrow> string \<Rightarrow> (error + (scan_response + ticket)) \<times> store" where
  "scan_begin s now q =
     (case scan_lookup s now q of
        (Inl e, s1) \<Rightarrow> (Inl e, s1)
      | (Inr t, s1) \<Rightarrow> (Inr (scan_check now t), s1))"

text \<open>One request served with no other in between, read at \<open>now\<close> and updated at \<open>now'\<close>.\<close>

definition scanTicket ::
  "store \<Rightarrow> int \<Rightarrow> int \<Rightarrow> nat \<Rightarrow> string \<Rightarrow> (error + scan_response) \<times> store" where
  "scanTicket s now now' scannerId q =
     (case scan_begin s now q of
        (Inl e, s1) \<Rightarrow> (Inl e, s1)
      | (Inr (Inl response), s1) \<Rightarrow> (Inr response, s1)
      | (Inr (Inr t), s1) \<Rightarrow> scan_mark_used s1 now' scannerId q t)"

section \<open>Scheduled activation: \<open>activationWorker\<close>\<close>




section \<open>Payouts: \<open>payoutWorker\<close>\<close>

datatype payout_step =
    NoRevenue          \<comment> \<open>\<open>{success: true, message: 'No revenue to payout'}\<close>\<close>
  | PayoutCreated nat  \<comment> \<open>the payout document is created, in status \<open>processing\<close>\<close>

text \<open>
  The job up to the end of \<open>Payout.create\<close> (lines 179 to 234 of the payout job).
  \<open>new_id\<close> is the \<open>_id\<close> of the new document.
\<close>

definition payout_begin :: "store \<Rightarrow> nat \<Rightarrow> nat \<Rightarrow> (error + payout_step) \<times> store" where
  "payout_begin s evId new_id =
     (case events s evId of
        None \<Rightarrow> (Inl PayoutEventNotFound, s)
      | Some ev \<Rightarrow>
          if ev_status ev \<noteq> ev_completed then (Inl PayoutEventNotCompleted, s)
          else
            (let completedOrders =
                   filter (\<lambda>ord. eventId ord = ev_id ev \<and> paymentStatus ord = completed) (orders s);
                 totalRevenue = foldl (\<lambda>sum ord. sum + hostAmount ord) 0 completedOrders
             in if totalRevenue \<le> 0 then (Inr NoRevenue, s)
                else
                  (case List.find (\<lambda>p. po_eventId p = evId \<and> po_status p = po_completed) (payouts s) of
                     Some existingPayout \<Rightarrow> (Inl PayoutAlreadyCompleted, s)
                   | None \<Rightarrow>
                       if hostId ev \<notin> set (users s) then (Inl PayoutHostNotFound, s)
                       else
                         (Inr (PayoutCreated new_id),
                          s\<lparr>payouts := payouts s @
                               [\<lparr>po_id = new_id, po_hostId = hostId ev, po_eventId = ev_id ev,
                                 amount = totalRevenue, po_status = po_processing,
                                 ticketSales = length completedOrders, completedAt = None\<rparr>]\<rparr>))))"

text \<open>
  The rest of the job, after the two seconds of the simulated bank transfer: the payout
  document is saved as \<open>completed\<close>.
\<close>

definition payout_finish :: "store \<Rightarrow> int \<Rightarrow> nat \<Rightarrow> store" where
  "payout_finish s now pid =
     s\<lparr>payouts := update_first (\<lambda>p. po_id p = pid)
                     (\<lambda>p. p\<lparr>po_status := po_completed, completedAt := Some now\<rparr>) (payouts s)\<rparr>"

text \<open>One firing of the job that runs from its start to its end with no other in between.\<close>

definition payoutWorker :: "store \<Rightarrow> int \<Rightarrow> nat \<Rightarrow> nat \<Rightarrow> (error + payout_step) \<times> store" where
  "payoutWorker s now evId new_id =
     (case payout_begin s evId new_id of
        (Inr (PayoutCreated pid), s1) \<Rightarrow> (Inr (PayoutCreated pid), payout_finish s1 now pid)
      | (res, s1) \<Rightarrow> (res, s1))"

text \<open>
  \<open>schedulePayoutJobs\<close>. \<open>evIds\<close> lists the \<open>_id\<close>s of the events collection, which
  \<open>Event.find\<close> scans for the completed events that ended more than 24 hours ago and
  are not marked \<open>payoutProcessed\<close>. Each of them that has no job in the queue gets one
  and is saved with the mark.
\<close>

definition eventsToPayout :: "store \<Rightarrow> int \<Rightarrow> nat list \<Rightarrow> event list" where
  "eventsToPayout s now evIds =
     filter (\<lambda>ev. eventDateTime ev < now - 24 * 60 * 60 * 1000 \<and> ev_status ev = ev_completed \<and>
                  \<not> payoutProcessed ev)
       (List.map_filter (events s) evIds)"

fun schedule_loop :: "store \<Rightarrow> event list \<Rightarrow> store" where
  "schedule_loop s [] = s"
| "schedule_loop s (ev # evs) =
     (let alreadyQueued = (ev_id ev \<in> set (payoutQueue s)) in
      if \<not> alreadyQueued
      then schedule_loop
             (s\<lparr>payoutQueue := payoutQueue s @ [ev_id ev],
                events := (events s)(ev_id ev \<mapsto> ev\<lparr>payoutProcessed := True\<rparr>)\<rparr>) evs
      else schedule_loop s evs)"

definition schedulePayoutJobs :: "store \<Rightarrow> int \<Rightarrow> nat list \<Rightarrow> store" where
  "schedulePayoutJobs s now evIds = schedule_loop s (eventsToPayout s now evIds)"

section \<open>Example data\<close>

text \<open>A store with the one published event \<open>ev_vip\<close> and its host, and nothing else.\<close>

definition store0 :: store where
  "store0 = \<lparr>events = Map.empty(1 \<mapsto> ev_vip), orders = [], db_tickets = [], payouts = [],
          users = [7], ticketQueue = [], activationQueue = [], payoutQueue = [],
          locks = Map.empty,
          reservations = Map.empty, checkouts = Map.empty, ticketCache = Map.empty,
          scanLog = []\<rparr>"

text \<open>A checkout of two VIP tickets, and the order and the store it leaves at time 0.\<close>

definition req2 :: "request_item list" where
  "req2 = [\<lparr>req_tierName = ''VIP'', req_quantity = 2\<rparr>]"

definition ord1 :: order where
  "ord1 = \<lparr>order_id = 10, orderNumber = ''ORD-1'', eventId = 1,
     tickets = [\<lparr>tierName = ''VIP'', quantity = 2, unitPrice = 500, totalPrice = 1000\<rparr>],
     subtotal = 1000, platformFee = 50, processingFee = 20, totalAmount = 1020,
     hostAmount = 950, platformAmount = 50, paymentStatus = pending,
     mpesaReference = None, checkoutRequestId = None, order_notes = None\<rparr>"

definition resp1 :: checkout_response where
  "resp1 = \<lparr>resp_id = 10, resp_orderNumber = ''ORD-1'', resp_totalAmount = 1020,
     resp_tickets = [\<lparr>tierName = ''VIP'', quantity = 2, unitPrice = 500, totalPrice = 1000\<rparr>],
     reservationExpiresIn = 600\<rparr>"

definition store1 :: store where
  "store1 = store0\<lparr>orders := [ord1],
           reservations := Map.empty(10 \<mapsto>
             (\<lparr>res_eventId = 1, res_tickets = req2, expiresAt = 600000\<rparr>, 600000))\<rparr>"

text \<open>
  The store after \<open>initiatePayment\<close> for that order, one minute later, accepted by the
  gateway under the id \<open>ws_CO_1\<close>: four VIP tickets are sold.
\<close>

definition ev_vip4 :: event where
  "ev_vip4 = ev_vip\<lparr>tiers := [\<lparr>name = ''VIP'', price = 500, quantityAvailable = 5,
                                 quantitySold = 4\<rparr>],
                     ticketsSold := 4\<rparr>"

definition store2 :: store where
  "store2 = store0\<lparr>events := Map.empty(1 \<mapsto> ev_vip4),
           orders := [ord1\<lparr>checkoutRequestId := Some ''ws_CO_1''\<rparr>],
           checkouts := Map.empty(''ws_CO_1'' \<mapsto>
             (\<lparr>co_orderId = ''ORD-1'', co_amount = 1020\<rparr>, 3660000))\<rparr>"

text \<open>A success notification for \<open>ws_CO_1\<close> that reports a paid amount, and a failure.\<close>

definition cb_paid :: "number \<Rightarrow> callback" where
  "cb_paid paid = \<lparr>ResultCode = 0, ResultDesc = ''The service request is processed successfully.'',
      CheckoutRequestID = ''ws_CO_1'', meta_Amount = Some paid,
      meta_MpesaReceiptNumber = Some ''RCPT1''\<rparr>"

definition cb_cancelled :: callback where
  "cb_cancelled = \<lparr>ResultCode = 1032, ResultDesc = ''Request cancelled by user'',
      CheckoutRequestID = ''ws_CO_1'', meta_Amount = None, meta_MpesaReceiptNumber = None\<rparr>"

text \<open>The store after the success notification with the full amount.\<close>

definition store3 :: store where
  "store3 = store2\<lparr>orders := [ord1\<lparr>paymentStatus := completed, mpesaReference := Some ''RCPT1'',
                             checkoutRequestId := Some ''ws_CO_1'',
                             order_notes := Some ''Payment received via M-Pesa. Receipt: RCPT1''\<rparr>],
           ticketQueue := [\<lparr>job_orderId = 10, job_eventId = 1,
              job_tickets = [\<lparr>tierName = ''VIP'', quantity = 2, unitPrice = 500,
                              totalPrice = 1000\<rparr>]\<rparr>],
           checkouts := Map.empty\<rparr>"

text \<open>
  A checkout with two line items on the VIP tier, two tickets each, when three are
  left: the order and the store it leaves at time 0.
\<close>

definition req22 :: "request_item list" where
  "req22 = [\<lparr>req_tierName = ''VIP'', req_quantity = 2\<rparr>,
            \<lparr>req_tierName = ''VIP'', req_quantity = 2\<rparr>]"

definition ord22 :: order where
  "ord22 = \<lparr>order_id = 11, orderNumber = ''ORD-2'', eventId = 1,
     tickets = [\<lparr>tierName = ''VIP'', quantity = 2, unitPrice = 500, totalPrice = 1000\<rparr>,
                \<lparr>tierName = ''VIP'', quantity = 2, unitPrice = 500, totalPrice = 1000\<rparr>],
     subtotal = 2000, platformFee = 100, processingFee = 40, totalAmount = 2040,
     hostAmount = 1900, platformAmount = 100, paymentStatus = pending,
     mpesaReference = None, checkoutRequestId = None, order_notes = None\<rparr>"

definition store22 :: store where
  "store22 = store0\<lparr>orders := [ord22],
            reservations := Map.empty(11 \<mapsto>
              (\<lparr>res_eventId = 1, res_tickets = req22, expiresAt = 600000\<rparr>, 600000))\<rparr>"

text \<open>
  A ticket of the event \<open>ev_vip\<close>, which starts at 100000000 ms: the ticket becomes
  active at 85600000 ms. The store holds it once not yet active and once valid.
\<close>

definition tk1 :: ticket where
  "tk1 = \<lparr>tk_id = 50, ticketId = ''TKT-1'', qrCodeId = ''QR-1'', tk_eventId = 1,
           tk_status = not_active, populated_eventDateTime = Some 100000000,
           activationTime = None, scannedAt = None, scannedBy = None\<rparr>"

definition store_gate :: store where
  "store_gate = store0\<lparr>db_tickets := [tk1]\<rparr>"

definition store_valid :: store where
  "store_valid = store0\<lparr>db_tickets := [tk1\<lparr>tk_status := valid\<rparr>]\<rparr>"

text \<open>
  The valid ticket read by a scan at time 1000 (it is now cached), and marked as used
  by the scanner \<open>who\<close> at the instant \<open>time\<close>, as the database and as the cache hold it then.
\<close>

definition store_read :: store where
  "store_read = store_valid\<lparr>ticketCache :=
                   Map.empty(''QR-1'' \<mapsto> (Some (tk1\<lparr>tk_status := valid\<rparr>), 301000))\<rparr>"

definition tk_used :: "nat \<Rightarrow> int \<Rightarrow> ticket" where
  "tk_used who time = tk1\<lparr>tk_status := already_used, scannedAt := Some time, scannedBy := Some who\<rparr>"

definition store_used :: "nat \<Rightarrow> int \<Rightarrow> (string \<times> nat) list \<Rightarrow> store" where
  "store_used who time entries =
     store_valid\<lparr>db_tickets := [tk_used who time],
                 ticketCache := Map.empty(''QR-1'' \<mapsto>
                   (Some ((tk_used who time)\<lparr>populated_eventDateTime := None\<rparr>), time + 300000)),
                 scanLog := entries\<rparr>"

text \<open>
  The event completed, with the one completed order \<open>ORD-1\<close> (950 for the host), and the
  payout documents that two firings of the payout job create for it.
\<close>

definition store_done :: store where
  "store_done = store3\<lparr>events := Map.empty(1 \<mapsto> ev_vip4\<lparr>ev_status := ev_completed\<rparr>)\<rparr>"

definition payout_of :: "nat \<Rightarrow> payout_status \<Rightarrow> int option \<Rightarrow> payout" where
  "payout_of pid st done_at =
     \<lparr>po_id = pid, po_hostId = 7, po_eventId = 1, amount = 950, po_status = st,
      ticketSales = 1, completedAt = done_at\<rparr>"

section \<open>Inventory: the bound on \<open>quantitySold\<close>\<close>

lemma update_tier_names: "map name (update_tier n (\<lambda>t. t\<lparr>quantitySold := g t\<rparr>) ts) = map name ts"
  by (induction ts) auto

lemma update_tier_capacity:
  "map quantityAvailable (update_tier n (\<lambda>t. t\<lparr>quantitySold := g t\<rparr>) ts) = map quantityAvailable ts"
  by (induction ts) auto

lemma update_tier_ok:
  assumes "list_all tier_ok ts"
    and "\<And>t. find_tier ts n = Some t \<Longrightarrow> tier_ok (f t)"
  shows "list_all tier_ok (update_tier n f ts)"
  using assms by (induction ts) (auto simp: find_tier_def)

lemma reserveTickets_ok:
  assumes "tiers_ok ev" "0 \<le> q" "reserveTickets ev n q = Inr ev'"
  shows "tiers_ok ev'"
proof -
  from assms(3) obtain t where t: "find_tier (tiers ev) n = Some t"
    and enough: "\<not> quantityAvailable t - quantitySold t < q"
    and ev': "ev' = ev\<lparr>tiers := update_tier n (\<lambda>t. t\<lparr>quantitySold := quantitySold t + q\<rparr>) (tiers ev),
                       ticketsSold := ticketsSold ev + q\<rparr>"
    by (auto simp: reserveTickets_def Let_def split: option.splits if_splits)
  have "t \<in> set (tiers ev)"
    using t by (auto simp: find_tier_def find_Some_iff)
  then have "tier_ok t"
    using assms(1) by (simp add: tiers_ok_def list_all_iff)
  then have "tier_ok (t\<lparr>quantitySold := quantitySold t + q\<rparr>)"
    using enough assms(2) by (simp add: tier_ok_def)
  then have "list_all tier_ok (update_tier n (\<lambda>t. t\<lparr>quantitySold := quantitySold t + q\<rparr>) (tiers ev))"
    using assms(1) t by (intro update_tier_ok) (auto simp: tiers_ok_def)
  then show ?thesis by (simp add: ev' tiers_ok_def)
qed

lemma releaseTickets_ok:
  assumes "tiers_ok ev" "0 \<le> q" "releaseTickets ev n q = Inr ev'"
  shows "tiers_ok ev'"
proof -
  from assms(3) obtain t where t: "find_tier (tiers ev) n = Some t"
    and ev': "ev' = ev\<lparr>tiers := update_tier n (\<lambda>t. t\<lparr>quantitySold := max 0 (quantitySold t - q)\<rparr>) (tiers ev),
                       ticketsSold := max 0 (ticketsSold ev - q)\<rparr>"
    by (auto simp: releaseTickets_def split: option.splits)
  have "t \<in> set (tiers ev)"
    using t by (auto simp: find_tier_def find_Some_iff)
  then have "tier_ok t"
    using assms(1) by (simp add: tiers_ok_def list_all_iff)
  then have "tier_ok (t\<lparr>quantitySold := max 0 (quantitySold t - q)\<rparr>)"
    using assms(2) by (simp add: tier_ok_def)
  then have "list_all tier_ok (update_tier n (\<lambda>t. t\<lparr>quantitySold := max 0 (quantitySold t - q)\<rparr>) (tiers ev))"
    using assms(1) t by (intro update_tier_ok) (auto simp: tiers_ok_def)
  then show ?thesis by (simp add: ev' tiers_ok_def)
qed

lemma apply_ledger_op_ok:
  assumes "tiers_ok ev" "0 \<le> op_quantity x"
  shows "tiers_ok (apply_ledger_op ev x)"
  using assms
  by (cases x) (auto split: sum.splits intro: reserveTickets_ok releaseTickets_ok)

lemma apply_ledger_op_capacity:
  "map quantityAvailable (tiers (apply_ledger_op ev x)) = map quantityAvailable (tiers ev)"
  by (cases x)
     (auto simp: reserveTickets_def releaseTickets_def Let_def update_tier_capacity
           split: sum.splits option.splits if_splits)

text \<open>
  C2 (as amended). One event document receives any sequence of \<open>reserveTickets\<close> and
  \<open>releaseTickets\<close> calls, one after the other, each with a quantity that is not
  negative. If every tier starts with \<open>0 \<le> quantitySold \<le> quantityAvailable\<close>, every tier
  satisfies it after the whole sequence (hence after each call), and no capacity
  changes: the calls never book more than the capacity of a tier.
\<close>

theorem ledger_sold_bounded:
  assumes "tiers_ok ev" and "\<forall>x \<in> set ops. 0 \<le> op_quantity x"
  shows "tiers_ok (run_ledger ev ops) \<and>
         map quantityAvailable (tiers (run_ledger ev ops)) = map quantityAvailable (tiers ev)"
  using assms
  by (induction ops arbitrary: ev) (auto simp: apply_ledger_op_ok apply_ledger_op_capacity)

theorem ledger_sold_bounded_witness:
  "tiers_ok ev_vip \<and>
   list_all (\<lambda>x. 0 \<le> op_quantity x) [Reserve ''VIP'' 3, Release ''VIP'' 1, Reserve ''VIP'' 9] \<and>
   tiers_ok (run_ledger ev_vip [Reserve ''VIP'' 3, Release ''VIP'' 1, Reserve ''VIP'' 9]) \<and>
   map quantitySold (tiers (run_ledger ev_vip [Reserve ''VIP'' 3, Release ''VIP'' 1, Reserve ''VIP'' 9])) = [4]"
proof -
  have h1: "tiers_ok ev_vip"
    by (simp add: tiers_ok_def tier_ok_def ev_vip_def)
  have h2: "\<forall>x \<in> set [Reserve ''VIP'' 3, Release ''VIP'' 1, Reserve ''VIP'' 9]. 0 \<le> op_quantity x"
    by simp
  have h3: "map quantitySold (tiers (run_ledger ev_vip [Reserve ''VIP'' 3, Release ''VIP'' 1, Reserve ''VIP'' 9])) = [4]"
    by (simp add: ev_vip_def reserveTickets_def releaseTickets_def find_tier_def Let_def)
  show ?thesis
    using ledger_sold_bounded [OF h1 h2] h1 h3 by simp
qed

text \<open>
  C2 as stated says that the sold counter only increases. \<open>releaseTickets\<close> lowers it:
  on the tier with 2 sold, releasing 1 leaves 1.
\<close>

theorem release_lowers_sold:
  "map quantitySold (tiers ev_vip) = [2] \<and>
   map quantitySold (tiers (run_ledger ev_vip [Release ''VIP'' 1])) = [1]"
  by (simp add: ev_vip_def releaseTickets_def find_tier_def)

section \<open>Checkout and fees\<close>

lemmas example_defs =
  store0_def store1_def store2_def store3_def store22_def ev_vip_def ev_vip4_def ord1_def ord22_def resp1_def
  req2_def req22_def cb_paid_def cb_cancelled_def

lemmas redis_defs = redis_set_nx_def redis_get_def redis_set_def redis_del_def









section \<open>Payment initiation\<close>




lemma initiatePayment_s1:
  "initiatePayment store1 60000 10 (StkAccepted ''ws_CO_1'') =
   (Inr \<lparr>pay_checkoutRequestId = ''ws_CO_1'', pay_orderId = ''ORD-1''\<rparr>, store2)"
  by (simp add: initiatePayment_def initiateSTKPush_def example_defs redis_defs find_tier_def
                Let_def reserveTickets_def save_event_def)



section \<open>Expiry of the reservation record\<close>






section \<open>Line items that cannot all be reserved\<close>



text \<open>
  The sibling path of the same handler: when the gateway refuses the payment, every
  line item is released again and the counters are as before the call.
\<close>

lemma refused_payment_releases:
  "initiatePayment store1 60000 10 (StkRejected ''Invalid'') =
   (Inl (PaymentInitiationFailed ''Invalid''), store0\<lparr>orders := [ord1]\<rparr>)"
  by (simp add: initiatePayment_def initiateSTKPush_def example_defs redis_defs find_tier_def
                Let_def reserveTickets_def releaseTickets_def save_event_def)

section \<open>Payment notifications\<close>

lemmas callback_defs = callback_route_def validateCallback_def validateCallback_try_def short_paid_def

text \<open>A success notification whose id is not in the cache throws before any update.\<close>

lemma success_without_cache:
  assumes "ResultCode cb = 0"
    and "redis_get (checkouts s) now (CheckoutRequestID cb) = None"
  shows "validateCallback s now cb = (Inl FailedToValidateCallback, s)"
  using assms by (simp add: validateCallback_def validateCallback_try_def)

text \<open>A success notification that was processed has removed its id from the cache.\<close>

lemma processed_success_clears_cache:
  assumes "ResultCode cb = 0"
    and "validateCallback s now cb = (Inr res, s1)"
  shows "checkouts s1 (CheckoutRequestID cb) = None"
  using assms
  by (auto simp: validateCallback_def validateCallback_try_def Let_def redis_del_def
           split: option.splits if_splits prod.splits sum.splits)

lemma absent_key: "r k = None \<Longrightarrow> redis_get r now k = None"
  by (simp add: redis_get_def)

text \<open>
  C5 fails on the code. The order of the example is for 1020. After
  \<open>initiatePayment\<close> four VIP tickets are sold; the success notification that reports
  800 makes \<open>validateCallback\<close> throw at the amount check, the route answers with
  result code 1, and the store is exactly as before: the order is still \<open>pending\<close>
  (it is not completed, and not failed either), the two tickets are still booked (4
  sold, not the 2 of before the payment), and the cached checkout is still there.
\<close>

theorem short_payment_keeps_inventory:
  "initiatePayment store1 60000 10 (StkAccepted ''ws_CO_1'') =
     (Inr \<lparr>pay_checkoutRequestId = ''ws_CO_1'', pay_orderId = ''ORD-1''\<rparr>, store2) \<and>
   map totalAmount (orders store2) = [1020] \<and>
   callback_route store2 120000 (cb_paid 800) =
     (\<lparr>http_status = 200, ack_ResultCode = 1, ack_ResultDesc = ''Error processing callback''\<rparr>,
      store2) \<and>
   map paymentStatus (orders store2) = [pending] \<and>
   map_option (map quantitySold \<circ> tiers) (events store1 1) = Some [2] \<and>
   map_option (map quantitySold \<circ> tiers) (events store2 1) = Some [4] \<and>
   redis_get (checkouts store2) 120000 ''ws_CO_1'' =
     Some \<lparr>co_orderId = ''ORD-1'', co_amount = 1020\<rparr>"
proof -
  have "callback_route store2 120000 (cb_paid 800) =
     (\<lparr>http_status = 200, ack_ResultCode = 1, ack_ResultDesc = ''Error processing callback''\<rparr>,
      store2)"
    by (simp add: callback_defs example_defs redis_defs)
  moreover have "map totalAmount (orders store2) = [1020]"
    "map paymentStatus (orders store2) = [pending]"
    "map_option (map quantitySold \<circ> tiers) (events store1 1) = Some [2]"
    "map_option (map quantitySold \<circ> tiers) (events store2 1) = Some [4]"
    "redis_get (checkouts store2) 120000 ''ws_CO_1'' =
       Some \<lparr>co_orderId = ''ORD-1'', co_amount = 1020\<rparr>"
    by (simp_all add: example_defs redis_defs)
  ultimately show ?thesis
    unfolding initiatePayment_s1 by simp
qed

text \<open>
  The sibling path of \<open>validateCallback\<close>: a failure notification for the same checkout
  marks the order \<open>failed\<close>, releases its tickets (2 sold again) and removes the cached
  checkout.
\<close>

lemma failure_notification_releases:
  "callback_route store2 120000 cb_cancelled =
   (\<lparr>http_status = 200, ack_ResultCode = 1032, ack_ResultDesc = ''Request cancelled by user''\<rparr>,
    store0\<lparr>orders := [ord1\<lparr>paymentStatus := failed, checkoutRequestId := Some ''ws_CO_1'',
                  order_notes := Some ''Payment failed: Request cancelled by user''\<rparr>]\<rparr>)"
  by (simp add: callback_defs example_defs redis_defs Let_def releaseTickets_def find_tier_def
                save_event_def)

lemma paid_notification:
  "callback_route store2 120000 (cb_paid 1020) =
   (\<lparr>http_status = 200, ack_ResultCode = 0, ack_ResultDesc = ''Success''\<rparr>, store3)"
  by (simp add: callback_defs example_defs redis_defs Let_def)

lemma paid_notification_result:
  "validateCallback store2 120000 (cb_paid 1020) =
   (Inr (CallbackSuccess ''ORD-1'' (Some ''RCPT1'') (Some 1020) ''ws_CO_1''), store3)"
  by (simp add: callback_defs example_defs redis_defs Let_def)

text \<open>
  C3 (as amended). A success notification whose checkout id is not in the Redis cache
  changes nothing, and the route answers it with HTTP status 200 and result code 1,
  \<open>'Error processing callback'\<close>. That is what a success notification meets when it is
  delivered again, at any later time, after a first delivery was processed (the order
  completed, the ticket job queued): no order, no counter and no queue changes.
\<close>

theorem replayed_notification_no_effect:
  assumes "ResultCode cb = 0"
  shows "(redis_get (checkouts s) now (CheckoutRequestID cb) = None \<longrightarrow>
            callback_route s now cb =
              (\<lparr>http_status = 200, ack_ResultCode = 1,
                ack_ResultDesc = ''Error processing callback''\<rparr>, s)) \<and>
         (\<forall>res s1. validateCallback s now cb = (Inr res, s1) \<longrightarrow>
            callback_route s1 now' cb =
              (\<lparr>http_status = 200, ack_ResultCode = 1,
                ack_ResultDesc = ''Error processing callback''\<rparr>, s1))"
proof (intro conjI allI impI)
  assume "redis_get (checkouts s) now (CheckoutRequestID cb) = None"
  then show "callback_route s now cb =
      (\<lparr>http_status = 200, ack_ResultCode = 1, ack_ResultDesc = ''Error processing callback''\<rparr>, s)"
    using assms by (simp add: callback_route_def success_without_cache)
next
  fix res s1
  assume "validateCallback s now cb = (Inr res, s1)"
  then have "redis_get (checkouts s1) now' (CheckoutRequestID cb) = None"
    using assms by (intro absent_key) (rule processed_success_clears_cache)
  then show "callback_route s1 now' cb =
      (\<lparr>http_status = 200, ack_ResultCode = 1, ack_ResultDesc = ''Error processing callback''\<rparr>, s1)"
    using assms by (simp add: callback_route_def success_without_cache)
qed

theorem replayed_notification_no_effect_witness:
  "ResultCode (cb_paid 1020) = 0 \<and>
   redis_get (checkouts store3) 130000 (CheckoutRequestID (cb_paid 1020)) = None \<and>
   validateCallback store2 120000 (cb_paid 1020) =
     (Inr (CallbackSuccess ''ORD-1'' (Some ''RCPT1'') (Some 1020) ''ws_CO_1''), store3) \<and>
   callback_route store3 130000 (cb_paid 1020) =
     (\<lparr>http_status = 200, ack_ResultCode = 1, ack_ResultDesc = ''Error processing callback''\<rparr>,
      store3) \<and>
   length (ticketQueue store3) = 1 \<and> map paymentStatus (orders store3) = [completed]"
proof -
  have h1: "ResultCode (cb_paid 1020) = 0"
    by (simp add: cb_paid_def)
  have h2: "redis_get (checkouts store3) 130000 (CheckoutRequestID (cb_paid 1020)) = None"
    by (simp add: example_defs redis_defs)
  have h3: "length (ticketQueue store3) = 1 \<and> map paymentStatus (orders store3) = [completed]"
    by (simp add: example_defs)
  show ?thesis
    using replayed_notification_no_effect [OF h1, of store2 120000 130000]
          replayed_notification_no_effect [OF h1, of store3 130000 130000]
          paid_notification_result h1 h2 h3
    by blast
qed

text \<open>
  C3 as stated says that the second delivery is acknowledged as a success. The first
  delivery of the paid notification is answered with result code 0, \<open>'Success'\<close>; the
  same notification delivered again is answered with result code 1,
  \<open>'Error processing callback'\<close> (the store is left as it was).
\<close>

theorem replay_not_acknowledged_as_success:
  "callback_route store2 120000 (cb_paid 1020) =
     (\<lparr>http_status = 200, ack_ResultCode = 0, ack_ResultDesc = ''Success''\<rparr>, store3) \<and>
   map paymentStatus (orders store3) = [completed] \<and>
   callback_route store3 130000 (cb_paid 1020) =
     (\<lparr>http_status = 200, ack_ResultCode = 1, ack_ResultDesc = ''Error processing callback''\<rparr>,
      store3)"
  by (simp add: callback_defs example_defs redis_defs Let_def)

section \<open>Scanning and activation\<close>

lemmas gate_defs =
  store_gate_def store_valid_def store_read_def tk_used_def store_used_def tk1_def
  store_done_def payout_of_def

lemmas scan_defs =
  scanTicket_def scan_begin_def scan_lookup_def scan_check_def scan_mark_used_def
  fourHoursBefore_def






text \<open>
  Without an attached event the activation time is an Invalid Date, the comparison of
  line 63 is false, and the scan of a ticket that is \<open>not_active\<close> goes on at any time.
\<close>

lemma scan_without_event:
  "tk_status t = not_active \<Longrightarrow> populated_eventDateTime t = None \<Longrightarrow>
   scan_check now t = Inr (t\<lparr>tk_status := valid\<rparr>)"
  by (simp add: scan_check_def fourHoursBefore_def)

text \<open>
  C1 fails on the code. Two gates scan the same valid ticket. The first request reads
  the ticket and passes the checks; before it reaches its update, the second request
  reads the ticket (from the cache, still \<open>valid\<close>) and passes the checks too. Both
  then run \<open>findByIdAndUpdate\<close>, which has no condition on the status: both answer
  \<open>'Ticket scanned successfully'\<close>, and the ticket ends with the second scanner's
  name and time.
\<close>

theorem interleaved_scans_both_succeed:
  "scan_begin store_valid 1000 ''QR-1'' = (Inr (Inr (tk1\<lparr>tk_status := valid\<rparr>)), store_read) \<and>
   scan_begin store_read 1001 ''QR-1'' = (Inr (Inr (tk1\<lparr>tk_status := valid\<rparr>)), store_read) \<and>
   scan_mark_used store_read 1002 71 ''QR-1'' (tk1\<lparr>tk_status := valid\<rparr>) =
     (Inr (ScannedSuccessfully ((tk_used 71 1002)\<lparr>populated_eventDateTime := None\<rparr>)),
      store_used 71 1002 [(''TKT-1'', 71)]) \<and>
   scan_mark_used (store_used 71 1002 [(''TKT-1'', 71)]) 1003 72 ''QR-1'' (tk1\<lparr>tk_status := valid\<rparr>) =
     (Inr (ScannedSuccessfully ((tk_used 72 1003)\<lparr>populated_eventDateTime := None\<rparr>)),
      store_used 72 1003 [(''TKT-1'', 72), (''TKT-1'', 71)]) \<and>
   tk_status (tk_used 71 1002) = already_used \<and> tk_status (tk_used 72 1003) = already_used"
  by (simp add: scan_defs gate_defs example_defs redis_defs Let_def)

text \<open>
  When the second request starts after the first has ended, it is rejected with
  \<open>'Ticket already used'\<close> and changes nothing.
\<close>

lemma second_scan_in_sequence_rejected:
  "scanTicket store_valid 1000 1002 71 ''QR-1'' =
     (Inr (ScannedSuccessfully ((tk_used 71 1002)\<lparr>populated_eventDateTime := None\<rparr>)),
      store_used 71 1002 [(''TKT-1'', 71)]) \<and>
   scanTicket (store_used 71 1002 [(''TKT-1'', 71)]) 1003 1004 72 ''QR-1'' =
     (Inr (TicketAlreadyUsed ''TKT-1'' (Some 1002)), store_used 71 1002 [(''TKT-1'', 71)])"
  by (simp add: scan_defs gate_defs example_defs redis_defs Let_def)

section \<open>Payouts\<close>


text \<open>
  The scheduler itself enqueues one job for the event and marks the event, so that its
  next run adds none; the job never reads the mark. When the second firing starts
  after the first has ended, it finds the completed payout, throws, and creates nothing.
\<close>

lemma scheduler_enqueues_once:
  "schedulePayoutJobs store_done 200000000 [1] =
     store_done\<lparr>payoutQueue := [1],
                events := Map.empty(1 \<mapsto> ev_vip4\<lparr>ev_status := ev_completed, payoutProcessed := True\<rparr>)\<rparr> \<and>
   schedulePayoutJobs (schedulePayoutJobs store_done 200000000 [1]) 300000000 [1] =
     schedulePayoutJobs store_done 200000000 [1]"
  by (simp add: schedulePayoutJobs_def eventsToPayout_def List.map_filter_simps gate_defs
                example_defs Let_def)

lemma second_payout_job_in_sequence_refused:
  "payoutWorker store_done 5000 1 100 =
     (Inr (PayoutCreated 100), store_done\<lparr>payouts := [payout_of 100 po_completed (Some 5000)]\<rparr>) \<and>
   payoutWorker (store_done\<lparr>payouts := [payout_of 100 po_completed (Some 5000)]\<rparr>) 9000 1 101 =
     (Inl PayoutAlreadyCompleted, store_done\<lparr>payouts := [payout_of 100 po_completed (Some 5000)]\<rparr>)"
  by (simp add: payoutWorker_def payout_begin_def payout_finish_def gate_defs example_defs Let_def)

end
